theory Spec2Isabelle
  imports Complex_Main
begin

section \<open>NumPy arrays of rank two\<close>

text \<open>
  The notebook \<^verbatim>\<open>Machine_Learning_Student_Cavity.ipynb\<close> builds its feature matrix as a
  NumPy array. An array of rank two is a shape and a row-major buffer; the shape is kept
  apart from the buffer, so that a 0 x 0 array still has a shape. The entries the notebook
  stores are float64 zeros; they are modelled as the real number 0.
\<close>

record ndarray =
  shape :: "nat \<times> nat"
  data :: "real list"

text \<open>\<^verbatim>\<open>np.zeros((r, c))\<close>\<close>

definition np_zeros :: "nat \<times> nat \<Rightarrow> ndarray" where
  "np_zeros s = \<lparr>shape = s, data = replicate (fst s * snd s) 0\<rparr>"

text \<open>
  \<^verbatim>\<open>M[i][j]\<close> for indices counted from 0. An index outside the shape raises IndexError in
  NumPy; here the read has no value.
\<close>

definition entry :: "ndarray \<Rightarrow> nat \<Rightarrow> nat \<Rightarrow> real option" where
  "entry M i j =
     (if i < fst (shape M) \<and> j < snd (shape M)
      then Some (data M ! (i * snd (shape M) + j))
      else None)"

section \<open>The function \<^verbatim>\<open>coulomb\<close> of the notebook\<close>

text \<open>
  The spec names one failure, \<^verbatim>\<open>InvalidInput\<close>. The result of a call is either a failure
  or the array returned. The body of \<^verbatim>\<open>coulomb(geom, q)\<close> in the notebook is

  \<^verbatim>\<open>natom = len(q)\<close>
  \<^verbatim>\<open>cm = np.zeros((natom,natom)) # ==> Fill this matrix! <==\<close>
  \<^verbatim>\<open># ==> YOUR CODE HERE <==#\<close>
  \<^verbatim>\<open>return cm\<close>

  It has no \<^verbatim>\<open>raise\<close> and no loop: the model has no failing branch.
\<close>

datatype error = InvalidInput

definition coulomb :: "real list list \<Rightarrow> real list \<Rightarrow> error + ndarray" where
  "coulomb geom q =
     (let natom = length q;
          cm = np_zeros (natom, natom)
      in Inr cm)"

text \<open>Reading an entry of the result of a call; a failed call has no entries.\<close>

definition entry_of :: "error + ndarray \<Rightarrow> nat \<Rightarrow> nat \<Rightarrow> real option" where
  "entry_of r i j = (case r of Inl e \<Rightarrow> None | Inr M \<Rightarrow> entry M i j)"

section \<open>Atom lists\<close>

text \<open>
  The spec's data model: an atom list is an ordered sequence of atoms, each with a
  3-component position and a charge. The notebook keeps a molecule as two parallel lists,
  the geometry \<^verbatim>\<open>[[xi,yi,zi],[xj,yj,zj],...]\<close> and the charges \<^verbatim>\<open>[qi,qj,...]\<close>
  (the docstring of \<^verbatim>\<open>coulomb\<close>), filled atom by atom in the same order.
\<close>

type_synonym vec3 = "real \<times> real \<times> real"

record atom =
  position :: vec3
  charge :: real

definition geom_of :: "atom list \<Rightarrow> real list list" where
  "geom_of atoms = map (\<lambda>a. case position a of (x, y, z) \<Rightarrow> [x, y, z]) atoms"

definition charges_of :: "atom list \<Rightarrow> real list" where
  "charges_of atoms = map charge atoms"

text \<open>A valid atom list: at least one atom, and no two atoms at the same position.\<close>

definition valid_atoms :: "atom list \<Rightarrow> bool" where
  "valid_atoms atoms = (atoms \<noteq> [] \<and> distinct (map position atoms))"

text \<open>
  A permutation of the indices \<open>0, ..., n - 1\<close> is the list of its values; the permuted
  atom list has atom \<open>p ! i\<close> of the original at index \<open>i\<close>.
\<close>

definition is_permutation :: "nat list \<Rightarrow> nat \<Rightarrow> bool" where
  "is_permutation p n = (distinct p \<and> set p = {0..<n})"

definition permute :: "'a list \<Rightarrow> nat list \<Rightarrow> 'a list" where
  "permute xs p = map (\<lambda>k. xs ! k) p"

section \<open>The feature matrix of the spec\<close>

text \<open>
  Modelled from the spec: the Euclidean distance of two positions (section 4.1, numeric
  semantics). The notebook computes no distance.
\<close>

fun distance :: "vec3 \<Rightarrow> vec3 \<Rightarrow> real" where
  "distance (x1, y1, z1) (x2, y2, z2) =
     sqrt ((x1 - x2)\<^sup>2 + (y1 - y2)\<^sup>2 + (z1 - z2)\<^sup>2)"

text \<open>
  Modelled from the spec: the standard inner product of two 3-vectors (section 4.1). The
  notebook computes none.
\<close>

fun dot :: "vec3 \<Rightarrow> vec3 \<Rightarrow> real" where
  "dot (x1, y1, z1) (x2, y2, z2) = x1 * x2 + y1 * y2 + z1 * z2"

text \<open>
  The optional field descriptor of the spec: a vector and a coupling strength, named as
  in the call \<^verbatim>\<open>coulomb(geom, q, lambda_vector, alpha)\<close> that the notebook asks its
  reader to write.
\<close>

record field_descriptor =
  lambda_vector :: vec3
  alpha :: real

text \<open>
  Modelled from the spec: the entry \<open>M[i][j]\<close> of section 4.1. The notebook has the
  formulas in its text only; the filling of the matrix, and the whole field-extended
  variant, are left to the reader and are not in the source. Off the diagonal the entry is
  \<open>charge_i * charge_j / distance\<close>; on the diagonal it is \<open>0.5 * charge_i^2.4\<close> in the
  base form and \<open>0.5 * charge_i^2.4 + alpha * (charge_i * dot(position_i, lambda))^2\<close> in
  the field-extended form, the power being the real power.
\<close>

definition feature_entry :: "atom list \<Rightarrow> field_descriptor option \<Rightarrow> nat \<Rightarrow> nat \<Rightarrow> real" where
  "feature_entry atoms fd i j =
     (let a = atoms ! i; b = atoms ! j
      in if i \<noteq> j then charge a * charge b / distance (position a) (position b)
         else (case fd of
                 None \<Rightarrow> 0.5 * charge a powr 2.4
               | Some f \<Rightarrow>
                   0.5 * charge a powr 2.4
                   + alpha f * (charge a * dot (position a) (lambda_vector f))\<^sup>2))"

text \<open>
  Modelled from the spec: the feature-matrix builder of section 4.1 with the error
  conditions stated there (InvalidInput for an empty atom list and for two atoms at the
  same position), which the notebook's \<^verbatim>\<open>coulomb\<close> does not implement. The N x N
  matrix is stored row by row.
\<close>

definition feature_matrix :: "atom list \<Rightarrow> field_descriptor option \<Rightarrow> error + ndarray" where
  "feature_matrix atoms fd =
     (let n = length atoms
      in if n = 0 then Inl InvalidInput
         else if distinct (map position atoms)
         then Inr \<lparr>shape = (n, n),
                   data = map (\<lambda>k. feature_entry atoms fd (k div n) (k mod n)) [0..<n * n]\<rparr>
         else Inl InvalidInput)"

section \<open>Concrete inputs\<close>

text \<open>Two unit charges at distance 1, and a single unit charge at the origin.\<close>

definition unit_pair :: "atom list" where
  "unit_pair = [\<lparr>position = (0, 0, 0), charge = 1\<rparr>, \<lparr>position = (1, 0, 0), charge = 1\<rparr>]"

definition unit_atom :: "atom list" where
  "unit_atom = [\<lparr>position = (0, 0, 0), charge = 1\<rparr>]"


text \<open>
  A water-like molecule with both O-H distances \<open>d\<close> and the H-O-H angle 104.5 degrees:
  charges 8, 1, 1, the oxygen at the origin and the first hydrogen on the x axis. The input
  of the spec's concrete scenario has \<open>d = 0.9584\<close>. The first geometry of the notebook
  (\<^verbatim>\<open>geoms[0]\<close>, bond length 0.5 Angstrom, stored in Bohr) has \<open>d = 0.5 / 0.52917721067\<close>.
\<close>

definition water_like :: "real \<Rightarrow> atom list" where
  "water_like d =
     [\<lparr>position = (0, 0, 0), charge = 8\<rparr>,
      \<lparr>position = (d, 0, 0), charge = 1\<rparr>,
      \<lparr>position = (d * cos (104.5 * pi / 180), d * sin (104.5 * pi / 180), 0),
       charge = 1\<rparr>]"

definition water :: "atom list" where
  "water = water_like 0.9584"

definition water_first :: "atom list" where
  "water_first = water_like (0.5 / 0.52917721067)"

text \<open>
  The matrix the notebook prints as the expected output of \<^verbatim>\<open>print(couls[0])\<close>, and
  the comparison of an array with a reference up to an absolute tolerance.
\<close>

definition reference_matrix :: ndarray where
  "reference_matrix =
     \<lparr>shape = (3, 3),
      data = [73.51669472, 8.46683537, 8.46683537,
              8.46683537, 0.5, 0.66926039,
              8.46683537, 0.66926039, 0.5]\<rparr>"

definition within_tolerance :: "ndarray \<Rightarrow> ndarray \<Rightarrow> real \<Rightarrow> bool" where
  "within_tolerance M R tol =
     (shape M = shape R \<and> list_all2 (\<lambda>x y. \<bar>x - y\<bar> \<le> tol) (data M) (data R))"

definition returns_within :: "error + ndarray \<Rightarrow> ndarray \<Rightarrow> real \<Rightarrow> bool" where
  "returns_within r R tol = (case r of Inl e \<Rightarrow> False | Inr M \<Rightarrow> within_tolerance M R tol)"

section \<open>Facts about zero arrays and the source function\<close>

lemma flat_index_in_range:
  fixes i j n :: nat
  assumes "i < n" and "j < n"
  shows "i * n + j < n * n"
proof -
  have "i * n + j < i * n + n"
    using assms(2) by simp
  also have "\<dots> = Suc i * n"
    by simp
  also have "\<dots> \<le> n * n"
    using assms(1) by (metis Suc_leI mult_le_mono1)
  finally show ?thesis .
qed

lemma entry_np_zeros:
  "entry (np_zeros (n, n)) i j = (if i < n \<and> j < n then Some 0 else None)"
  by (simp add: entry_def np_zeros_def flat_index_in_range)

lemma shape_np_zeros: "shape (np_zeros s) = s"
  by (simp add: np_zeros_def)

lemma coulomb_returns: "coulomb geom q = Inr (np_zeros (length q, length q))"
  by (simp add: coulomb_def Let_def)

lemma entry_of_coulomb:
  "entry_of (coulomb geom q) i j = (if i < length q \<and> j < length q then Some 0 else None)"
  by (simp add: coulomb_returns entry_of_def entry_np_zeros)

lemma length_charges_of: "length (charges_of atoms) = length atoms"
  by (simp add: charges_of_def)

lemma length_permute: "length (permute xs p) = length p"
  by (simp add: permute_def)

lemma is_permutation_length: "is_permutation p n \<Longrightarrow> length p = n"
  unfolding is_permutation_def
  by (metis card_atLeastLessThan diff_zero distinct_card)

lemma is_permutation_nth: "is_permutation p n \<Longrightarrow> i < n \<Longrightarrow> p ! i < n"
  using is_permutation_length [of p n] unfolding is_permutation_def
  by (metis atLeastLessThan_iff nth_mem)

section \<open>Facts about the feature matrix of the spec\<close>

lemma distance_commute: "distance a b = distance b a"
  by (cases a; cases b) (simp add: power2_commute)

lemma table_index:
  fixes i j n :: nat
  assumes "i < n" and "j < n"
  shows "(i * n + j) div n = i" and "(i * n + j) mod n = j"
  using assms by simp_all

lemma valid_atoms_feature_matrix:
  assumes "valid_atoms atoms"
  shows "feature_matrix atoms fd =
     Inr \<lparr>shape = (length atoms, length atoms),
          data = map (\<lambda>k. feature_entry atoms fd (k div length atoms) (k mod length atoms))
                   [0..<length atoms * length atoms]\<rparr>"
  using assms by (simp add: valid_atoms_def feature_matrix_def Let_def)

lemma entry_of_feature_matrix:
  assumes "valid_atoms atoms" and "i < length atoms" and "j < length atoms"
  shows "entry_of (feature_matrix atoms fd) i j = Some (feature_entry atoms fd i j)"
  using assms(2,3) flat_index_in_range [OF assms(2,3)]
  by (simp add: valid_atoms_feature_matrix [OF assms(1)] entry_of_def entry_def table_index)

lemma feature_entry_symmetric:
  "i \<noteq> j \<Longrightarrow> feature_entry atoms fd i j = feature_entry atoms fd j i"
  by (simp add: feature_entry_def Let_def distance_commute [of "position (atoms ! i)"] mult.commute)

lemma feature_entry_alpha_zero:
  "feature_entry atoms (Some \<lparr>lambda_vector = lam, alpha = 0\<rparr>) i j = feature_entry atoms None i j"
  by (simp add: feature_entry_def Let_def)

text \<open>
  Inside the spec the two forms agree: with \<open>alpha = 0\<close> the field-extended feature matrix
  is the base feature matrix. This compares the spec with itself, not with the notebook.
\<close>

lemma feature_matrix_alpha_zero:
  assumes "valid_atoms atoms"
  shows "\<exists>M. feature_matrix atoms None = Inr M
           \<and> feature_matrix atoms (Some \<lparr>lambda_vector = lam, alpha = 0\<rparr>) = Inr M"
  by (simp add: valid_atoms_feature_matrix [OF assms] feature_entry_alpha_zero)

section \<open>Facts about the concrete inputs\<close>

lemma valid_unit_pair: "valid_atoms unit_pair"
  by (simp add: valid_atoms_def unit_pair_def)

lemma valid_unit_atom: "valid_atoms unit_atom"
  by (simp add: valid_atoms_def unit_atom_def)

lemma length_unit_pair: "length unit_pair = 2"
  by (simp add: unit_pair_def)


lemma swap_is_permutation: "is_permutation [1, 0] 2"
  by (auto simp add: is_permutation_def)

lemma water_angle_sin_pos: "0 < sin (104.5 * pi / 180)"
proof (rule sin_gt_zero)
  have p: "0 < pi"
    by (rule pi_gt_zero)
  show "0 < 104.5 * pi / 180"
    using p by linarith
  show "104.5 * pi / 180 < pi"
    using p by linarith
qed

lemma length_water_like: "length (water_like d) = 3"
  by (simp add: water_like_def)

lemma water_like_positions:
  "map position (water_like d) =
     [(0, 0, 0), (d, 0, 0), (d * cos (104.5 * pi / 180), d * sin (104.5 * pi / 180), 0)]"
  unfolding water_like_def list.map atom.simps by (rule refl)

lemma bent_distinct:
  fixes d c s :: real
  assumes "d \<noteq> 0" and "s \<noteq> 0"
  shows "distinct [(0, 0, 0), (d, 0, 0), (d * c, d * s, 0 :: real)]"
  using assms by simp

lemma valid_water_like:
  assumes "0 < d"
  shows "valid_atoms (water_like d)"
proof -
  have s: "sin (104.5 * pi / 180) \<noteq> 0"
    using water_angle_sin_pos by (rule less_imp_neq [THEN not_sym])
  have d: "d \<noteq> 0"
    using assms by simp
  have "distinct (map position (water_like d))"
    unfolding water_like_positions by (rule bent_distinct [OF d s])
  moreover have "water_like d \<noteq> []"
    using length_water_like [of d] by auto
  ultimately show ?thesis
    by (simp only: valid_atoms_def simp_thms)
qed

text \<open>
  Under the formula of the spec the entry \<open>M[0][1]\<close> of a water-like molecule is
  \<open>8 * 1 / d\<close>. For \<open>d = 0.9584\<close> it is not within 1e-5 of the reference value
  8.46683537; for the notebook's first geometry it is.
\<close>

lemma feature_entry_water_like_OH:
  assumes "0 < d"
  shows "feature_entry (water_like d) None 0 1 = 8 / d"
proof -
  have "water_like d ! 0 = \<lparr>position = (0, 0, 0), charge = 8\<rparr>"
    by (simp add: water_like_def)
  moreover have "water_like d ! 1 = \<lparr>position = (d, 0, 0), charge = 1\<rparr>"
    by (simp add: water_like_def)
  moreover have "distance (0, 0, 0) (d, 0, 0) = d"
    using assms by simp
  ultimately show ?thesis
    unfolding feature_entry_def Let_def by simp
qed

lemma feature_matrix_water_like_OH:
  assumes "0 < d"
  shows "entry_of (feature_matrix (water_like d) None) 0 1 = Some (8 / d)"
proof -
  have "entry_of (feature_matrix (water_like d) None) 0 1
      = Some (feature_entry (water_like d) None 0 1)"
    by (rule entry_of_feature_matrix [OF valid_water_like [OF assms]])
      (simp_all add: length_water_like)
  then show ?thesis
    by (simp only: feature_entry_water_like_OH [OF assms])
qed

lemma feature_matrix_water_OH:
  "entry_of (feature_matrix water None) 0 1 = Some (8 / 0.9584)
   \<and> \<not> \<bar>8 / 0.9584 - 8.46683537\<bar> \<le> (1 / 100000 :: real)"
proof
  have "(0 :: real) < 0.9584"
    by simp
  then show "entry_of (feature_matrix water None) 0 1 = Some (8 / 0.9584)"
    unfolding water_def by (rule feature_matrix_water_like_OH)
  show "\<not> \<bar>8 / 0.9584 - 8.46683537\<bar> \<le> (1 / 100000 :: real)"
    by simp
qed

lemma feature_matrix_water_first_OH:
  "entry_of (feature_matrix water_first None) 0 1 = Some (8 / (0.5 / 0.52917721067))
   \<and> \<bar>8 / (0.5 / 0.52917721067) - 8.46683537\<bar> \<le> (1 / 100000 :: real)"
proof
  have "(0 :: real) < 0.5 / 0.52917721067"
    by simp
  then show "entry_of (feature_matrix water_first None) 0 1 = Some (8 / (0.5 / 0.52917721067))"
    unfolding water_first_def by (rule feature_matrix_water_like_OH)
  show "\<bar>8 / (0.5 / 0.52917721067) - 8.46683537\<bar> \<le> (1 / 100000 :: real)"
    by simp
qed

section \<open>The source function as written\<close>

text \<open>
  C3. For every geometry list and every charge list, \<^verbatim>\<open>coulomb\<close> as written returns the
  all-zeros matrix of shape len(q) x len(q): the array is allocated with zeros and returned
  with no entry filled. Every read inside the shape gives 0, every read outside it has no
  value.
\<close>

theorem coulomb_all_zeros:
  "coulomb geom q =
     Inr \<lparr>shape = (length q, length q), data = replicate (length q * length q) 0\<rparr>
   \<and> (\<forall>i j. entry_of (coulomb geom q) i j =
         (if i < length q \<and> j < length q then Some 0 else None))"
proof
  show "coulomb geom q =
      Inr \<lparr>shape = (length q, length q), data = replicate (length q * length q) 0\<rparr>"
    by (simp add: coulomb_def np_zeros_def Let_def)
  show "\<forall>i j. entry_of (coulomb geom q) i j =
      (if i < length q \<and> j < length q then Some 0 else None)"
    by (simp add: entry_of_coulomb)
qed

text \<open>
  C10. The shape of the matrix returned is len(q) x len(q) whatever the geometry list is:
  the call never fails, and two calls with the same charges and any two geometry lists
  (of any lengths, so also lengths other than len(q)) return the same array.
\<close>

theorem coulomb_shape_from_charges:
  "(\<exists>M. coulomb geom q = Inr M \<and> shape M = (length q, length q))
   \<and> coulomb geom q = coulomb geom' q"
  by (simp add: coulomb_returns shape_np_zeros)

section \<open>The entries the notebook documents\<close>

text \<open>
  C1, on the input of two unit charges at distance 1. The notebook's equation and the spec
  give the off-diagonal entry \<open>charge_0 * charge_1 / distance = 1\<close>; the function as written
  returns 0 there.
\<close>

theorem coulomb_offdiag_unfilled:
  "entry_of (coulomb (geom_of unit_pair) (charges_of unit_pair)) 0 1 = Some 0
   \<and> entry_of (feature_matrix unit_pair None) 0 1 = Some 1"
proof
  show "entry_of (coulomb (geom_of unit_pair) (charges_of unit_pair)) 0 1 = Some 0"
    by (simp add: entry_of_coulomb length_charges_of length_unit_pair)
  have "entry_of (feature_matrix unit_pair None) 0 1 = Some (feature_entry unit_pair None 0 1)"
    by (rule entry_of_feature_matrix [OF valid_unit_pair]) (simp_all add: length_unit_pair)
  also have "feature_entry unit_pair None 0 1 = 1"
    by (simp add: feature_entry_def unit_pair_def)
  finally show "entry_of (feature_matrix unit_pair None) 0 1 = Some 1" .
qed

text \<open>
  C2, on the input of one unit charge. The notebook's equation and the spec give the
  diagonal entry \<open>0.5 * 1^2.4 = 0.5\<close>; the function as written returns 0 there.
\<close>

theorem coulomb_diag_unfilled:
  "entry_of (coulomb (geom_of unit_atom) (charges_of unit_atom)) 0 0 = Some 0
   \<and> entry_of (feature_matrix unit_atom None) 0 0 = Some 0.5"
proof
  show "entry_of (coulomb (geom_of unit_atom) (charges_of unit_atom)) 0 0 = Some 0"
    by (simp add: entry_of_coulomb charges_of_def unit_atom_def)
  have "entry_of (feature_matrix unit_atom None) 0 0 = Some (feature_entry unit_atom None 0 0)"
    by (rule entry_of_feature_matrix [OF valid_unit_atom]) (simp_all add: unit_atom_def)
  also have "feature_entry unit_atom None 0 0 = 0.5"
    by (simp add: feature_entry_def unit_atom_def)
  finally show "entry_of (feature_matrix unit_atom None) 0 0 = Some 0.5" .
qed

text \<open>
  C4, as amended. For the three-atom input with charges 8, 1, 1 in the water-like geometry
  with O-H distance 0.9584 and H-O-H angle 104.5 degrees, \<^verbatim>\<open>coulomb\<close> returns a 3 x 3
  matrix and raises no error.
\<close>

theorem coulomb_water_shape:
  "\<exists>M. coulomb (geom_of water) (charges_of water) = Inr M \<and> shape M = (3, 3)"
  by (simp add: coulomb_returns shape_np_zeros length_charges_of water_def length_water_like)

text \<open>
  C4 as stated fails: on that input the matrix returned is not within 1e-5 of the
  reference matrix.
\<close>

theorem coulomb_water_not_reference:
  "\<not> returns_within (coulomb (geom_of water) (charges_of water)) reference_matrix (1 / 100000)"
proof -
  have "length (charges_of water) = 3"
    by (simp add: length_charges_of water_def length_water_like)
  then have r: "coulomb (geom_of water) (charges_of water) = Inr (np_zeros (3, 3))"
    by (simp add: coulomb_returns)
  have z: "data (np_zeros (3, 3)) = 0 # replicate 8 0"
    by (simp add: np_zeros_def numeral_eq_Suc)
  have "\<not> list_all2 (\<lambda>x y. \<bar>x - y\<bar> \<le> 1 / 100000) (data (np_zeros (3, 3)))
      (data reference_matrix)"
    unfolding z by (simp add: reference_matrix_def)
  then show ?thesis
    by (simp add: r returns_within_def within_tolerance_def)
qed

section \<open>Relations between entries\<close>

text \<open>
  C5. For every valid atom list (at least one atom, pairwise-distinct positions) and every
  pair of indices \<open>i \<noteq> j\<close> inside the matrix, \<open>M[i][j] = M[j][i]\<close>: for the matrix returned
  by the notebook's \<^verbatim>\<open>coulomb\<close>, which takes no field descriptor, and for the feature
  matrix of the spec, with or without a field descriptor.
\<close>

theorem feature_matrix_symmetric:
  assumes "valid_atoms atoms" and "i < length atoms" and "j < length atoms" and "i \<noteq> j"
  shows "(\<exists>v. entry_of (coulomb (geom_of atoms) (charges_of atoms)) i j = Some v
              \<and> entry_of (coulomb (geom_of atoms) (charges_of atoms)) j i = Some v)
         \<and> (\<exists>v. entry_of (feature_matrix atoms fd) i j = Some v
              \<and> entry_of (feature_matrix atoms fd) j i = Some v)"
proof
  show "\<exists>v. entry_of (coulomb (geom_of atoms) (charges_of atoms)) i j = Some v
          \<and> entry_of (coulomb (geom_of atoms) (charges_of atoms)) j i = Some v"
    using assms(2,3) by (simp add: entry_of_coulomb length_charges_of)
  have "entry_of (feature_matrix atoms fd) i j = Some (feature_entry atoms fd i j)"
    by (rule entry_of_feature_matrix [OF assms(1,2,3)])
  moreover have "entry_of (feature_matrix atoms fd) j i = Some (feature_entry atoms fd j i)"
    by (rule entry_of_feature_matrix [OF assms(1,3,2)])
  moreover have "feature_entry atoms fd i j = feature_entry atoms fd j i"
    by (rule feature_entry_symmetric [OF assms(4)])
  ultimately show "\<exists>v. entry_of (feature_matrix atoms fd) i j = Some v
          \<and> entry_of (feature_matrix atoms fd) j i = Some v"
    by simp
qed

theorem feature_matrix_symmetric_witness:
  "valid_atoms unit_pair
   \<and> (\<exists>v. entry_of (coulomb (geom_of unit_pair) (charges_of unit_pair)) 0 1 = Some v
         \<and> entry_of (coulomb (geom_of unit_pair) (charges_of unit_pair)) 1 0 = Some v)
   \<and> (\<exists>v. entry_of (feature_matrix unit_pair
                       (Some \<lparr>lambda_vector = (1, 0, 0), alpha = 1\<rparr>)) 0 1 = Some v
         \<and> entry_of (feature_matrix unit_pair
                       (Some \<lparr>lambda_vector = (1, 0, 0), alpha = 1\<rparr>)) 1 0 = Some v)"
proof -
  have len: "0 < length unit_pair" "1 < length unit_pair"
    by (simp_all add: length_unit_pair)
  have ne: "(0::nat) \<noteq> 1"
    by simp
  show ?thesis
    using feature_matrix_symmetric [OF valid_unit_pair len ne] valid_unit_pair
    by simp
qed


text \<open>
  C9. For every valid atom list and every permutation \<open>p\<close> of its indices, the matrix
  \<^verbatim>\<open>coulomb\<close> returns for the permuted list has at \<open>[i][j]\<close> the entry the matrix for the
  original list has at \<open>[p(i)][p(j)]\<close>, for all \<open>i\<close> and \<open>j\<close> inside the matrix.
\<close>

theorem coulomb_permutation_equivariant:
  assumes "valid_atoms atoms" and "is_permutation p (length atoms)"
    and "i < length atoms" and "j < length atoms"
  shows "\<exists>v. entry_of (coulomb (geom_of (permute atoms p)) (charges_of (permute atoms p))) i j
               = Some v
           \<and> entry_of (coulomb (geom_of atoms) (charges_of atoms)) (p ! i) (p ! j) = Some v"
proof -
  have len: "length (permute atoms p) = length atoms"
    using is_permutation_length [OF assms(2)] by (simp add: length_permute)
  have "p ! i < length atoms" and "p ! j < length atoms"
    using assms(2,3,4) by (simp_all add: is_permutation_nth)
  then show ?thesis
    using assms(3,4) len by (simp add: entry_of_coulomb length_charges_of)
qed

theorem coulomb_permutation_equivariant_witness:
  "valid_atoms unit_pair \<and> is_permutation [1, 0] (length unit_pair)
   \<and> (\<exists>v. entry_of (coulomb (geom_of (permute unit_pair [1, 0]))
                              (charges_of (permute unit_pair [1, 0]))) 0 1 = Some v
         \<and> entry_of (coulomb (geom_of unit_pair) (charges_of unit_pair)) 1 0 = Some v)"
proof -
  have p: "is_permutation [1, 0] (length unit_pair)"
    using swap_is_permutation by (simp add: length_unit_pair)
  have len: "0 < length unit_pair" "1 < length unit_pair"
    by (simp_all add: length_unit_pair)
  show ?thesis
    using coulomb_permutation_equivariant [OF valid_unit_pair p len] valid_unit_pair p
    by simp
qed

section \<open>Inputs the spec rejects\<close>

text \<open>
  C6, as amended. Called with the empty atom list, \<^verbatim>\<open>coulomb\<close> raises no error and
  returns the array of shape 0 x 0, which has no entries.
\<close>

theorem coulomb_empty_returns:
  "coulomb [] [] = Inr \<lparr>shape = (0, 0), data = []\<rparr>"
  by (simp add: coulomb_returns np_zeros_def)

text \<open>C6 as stated fails: the call with the empty atom list is not an InvalidInput failure.\<close>

theorem coulomb_empty_no_error: "coulomb [] [] \<noteq> Inl InvalidInput"
  by (simp add: coulomb_returns)




end
